theory Spec2Isabelle
  imports Complex_Main
begin

section \<open>Strings\<close>

text \<open>
  A JavaScript string is a sequence of UTF-16 code units. The model uses \<open>string\<close>, whose
  characters are 8 bits wide: it covers the strings whose code units are all below 256,
  one \<open>char\<close> per code unit. The string methods the plugin calls are total on strings;
  none of them throws.
\<close>

definition startsWith :: "string \<Rightarrow> string \<Rightarrow> bool" where
  "startsWith s p = (take (length p) s = p)"

definition endsWith :: "string \<Rightarrow> string \<Rightarrow> bool" where
  "endsWith s p = (length p \<le> length s \<and> drop (length s - length p) s = p)"

text \<open>\<open>s.indexOf(c)\<close> for a one-character needle; \<open>None\<close> stands for \<open>-1\<close>.\<close>

fun indexOf :: "string \<Rightarrow> char \<Rightarrow> nat option" where
  "indexOf [] c = None"
| "indexOf (x # xs) c = (if x = c then Some 0 else map_option Suc (indexOf xs c))"

text \<open>
  \<open>s.slice(a, b)\<close>: a negative index counts from the end, both indices are clamped to
  the string, and an empty range gives the empty string.
\<close>

definition slice :: "string \<Rightarrow> int \<Rightarrow> int \<Rightarrow> string" where
  "slice s a b =
     (let n = int (length s);
          f = (if a < 0 then max (n + a) 0 else min a n);
          t = (if b < 0 then max (n + b) 0 else min b n)
      in take (nat (t - f)) (drop (nat f) s))"

definition slice_from :: "string \<Rightarrow> int \<Rightarrow> string" where
  "slice_from s a = slice s a (int (length s))"

text \<open>
  The white space and line terminators that \<open>trim\<close> removes, among the code units
  below 256: tab, line feed, vertical tab, form feed, carriage return, space and
  no-break space.
\<close>

definition is_white_space :: "char \<Rightarrow> bool" where
  "is_white_space c =
     (c = CHR 0x09 \<or> c = CHR 0x0A \<or> c = CHR 0x0B \<or> c = CHR 0x0C \<or> c = CHR 0x0D \<or>
      c = CHR 0x20 \<or> c = CHR 0xA0)"

definition trim :: "string \<Rightarrow> string" where
  "trim s = rev (dropWhile is_white_space (rev (dropWhile is_white_space s)))"

text \<open>\<open>s.split(c)\<close> for a one-character separator: never the empty list.\<close>

fun split :: "string \<Rightarrow> char \<Rightarrow> string list" where
  "split [] c = [[]]"
| "split (x # xs) c =
     (if x = c then [] # split xs c
      else (case split xs c of [] \<Rightarrow> [[x]] | l # ls \<Rightarrow> (x # l) # ls))"


section \<open>Note types and the classifier\<close>

datatype NoteType = thought | question | insight

text \<open>
  The fields of \<open>NoteFrontmatter\<close>, all optional. \<open>type\<close> and \<open>confidence\<close> are
  assigned through a cast that is not checked at run time, so they hold any string.
\<close>

record NoteFrontmatter =
  fm_type :: "string option"
  created :: "string option"
  status :: "string option"
  triggered_by :: "string option"
  related_insights :: "string list option"
  related_questions :: "string list option"
  source_questions :: "string list option"
  confidence :: "string option"
  evolved_from :: "string option"
  tags :: "string list option"

text \<open>The object literal \<open>{}\<close>.\<close>

definition empty_frontmatter :: NoteFrontmatter where
  "empty_frontmatter =
     \<lparr>fm_type = None, created = None, status = None, triggered_by = None,
      related_insights = None, related_questions = None, source_questions = None,
      confidence = None, evolved_from = None, tags = None\<rparr>"

text \<open>A \<open>TAbstractFile\<close> of the host: a file or a folder, with its path.\<close>

datatype TAbstractFile = TFile string | TFolder string

fun path :: "TAbstractFile \<Rightarrow> string" where
  "path (TFile p) = p"
| "path (TFolder p) = p"

fun instanceof_TFile :: "TAbstractFile \<Rightarrow> bool" where
  "instanceof_TFile (TFile p) = True"
| "instanceof_TFile (TFolder p) = False"

definition determineNoteType :: "string \<Rightarrow> NoteType option" where
  "determineNoteType p =
     (if startsWith p ''Thoughts/'' then Some thought
      else if startsWith p ''Questions/'' then Some question
      else if startsWith p ''Insights/'' then Some insight
      else None)"

definition classifyNote :: "TAbstractFile \<Rightarrow> NoteType option" where
  "classifyNote file =
     (let p = path file in
      if startsWith p ''Thoughts/'' then Some thought
      else if startsWith p ''Questions/'' then Some question
      else if startsWith p ''Insights/'' then Some insight
      else None)"

definition isQuestionNote :: "TAbstractFile \<Rightarrow> bool" where
  "isQuestionNote file = (classifyNote file = Some question)"

definition isInsightNote :: "TAbstractFile \<Rightarrow> bool" where
  "isInsightNote file = (classifyNote file = Some insight)"


section \<open>The frontmatter parser\<close>

text \<open>
  The regular expression \<open>/^---\n([\s\S]*?)\n---\n?([\s\S]*)$/\<close> has no flags: \<open>^\<close> and
  \<open>$\<close> are the ends of the input and \<open>[\s\S]\<close> is any code unit. The first group is
  lazy, so it stops at the first place where \<open>\n---\<close> follows; \<open>find_close\<close> looks for
  that place and returns the text before it and the text after the three dashes.
\<close>

fun find_close :: "string \<Rightarrow> (string \<times> string) option" where
  "find_close [] = None"
| "find_close (c # cs) =
     (if startsWith (c # cs) ''\<newline>---'' then Some ([], drop 4 (c # cs))
      else map_option (\<lambda>(h, r). (c # h, r)) (find_close cs))"

text \<open>
  \<open>content.match(frontmatterRegex)\<close>: the two groups, or \<open>None\<close> for \<open>null\<close>. After
  the closing dashes \<open>\n?\<close> is greedy and takes a line feed when there is one; the second
  group takes the rest, whatever it is.
\<close>

definition match_frontmatter :: "string \<Rightarrow> (string \<times> string) option" where
  "match_frontmatter content =
     (if startsWith content ''---\<newline>'' then
        (case find_close (drop 4 content) of
           None \<Rightarrow> None
         | Some (h, r) \<Rightarrow> Some (h, if startsWith r ''\<newline>'' then drop 1 r else r))
      else None)"

text \<open>The quote removal of the loop body.\<close>

definition unquote :: "string \<Rightarrow> string" where
  "unquote v =
     (if (startsWith v ''\"'' \<and> endsWith v ''\"'') \<or>
         (startsWith v [CHR 0x27] \<and> endsWith v [CHR 0x27])
      then slice v 1 (- 1) else v)"

text \<open>One iteration of the loop over the header lines, with the \<open>switch\<close> on the key.\<close>

definition parse_line :: "NoteFrontmatter \<Rightarrow> string \<Rightarrow> NoteFrontmatter" where
  "parse_line fm line =
     (case indexOf line CHR '':'' of
        None \<Rightarrow> fm
      | Some colonIndex \<Rightarrow>
          (let key = trim (slice line 0 (int colonIndex));
               v = unquote (trim (slice_from line (int colonIndex + 1)))
           in if key = ''type'' then fm\<lparr>fm_type := Some v\<rparr>
              else if key = ''created'' then fm\<lparr>created := Some v\<rparr>
              else if key = ''status'' then fm\<lparr>status := Some v\<rparr>
              else if key = ''triggered_by'' then fm\<lparr>triggered_by := Some v\<rparr>
              else if key = ''confidence'' then fm\<lparr>confidence := Some v\<rparr>
              else if key = ''evolved_from'' then fm\<lparr>evolved_from := Some v\<rparr>
              else fm))"

definition parseFrontmatter :: "string \<Rightarrow> NoteFrontmatter \<times> string" where
  "parseFrontmatter content =
     (case match_frontmatter content of
        None \<Rightarrow> (empty_frontmatter, content)
      | Some (frontmatterRaw, body) \<Rightarrow>
          (foldl parse_line empty_frontmatter (split frontmatterRaw CHR ''\<newline>''), body))"


subsection \<open>The header as a list of entries\<close>

text \<open>
  A declarative reading of a header, to compare the loop with: a line with a colon is an
  entry, its key the trimmed text before the first colon and its value the trimmed text
  after it, without its quotes; a later entry for a key replaces an earlier one.
\<close>

definition line_entry :: "string \<Rightarrow> (string \<times> string) option" where
  "line_entry l =
     map_option (\<lambda>i. (trim (take i l), unquote (trim (drop (Suc i) l))))
       (indexOf l CHR '':'')"

definition header_entries :: "string \<Rightarrow> (string \<times> string) list" where
  "header_entries h = List.map_filter line_entry (split h CHR ''\<newline>'')"

definition header_field :: "string \<Rightarrow> string \<Rightarrow> string option" where
  "header_field h k = map_of (rev (header_entries h)) k"

text \<open>
  The typed result for a header: the six scalar fields of the \<open>switch\<close>, looked up in
  the entries; the four list fields of the interface have no case there.
\<close>

definition header_frontmatter :: "string \<Rightarrow> NoteFrontmatter" where
  "header_frontmatter h =
     \<lparr>fm_type = header_field h ''type'', created = header_field h ''created'',
      status = header_field h ''status'', triggered_by = header_field h ''triggered_by'',
      related_insights = None, related_questions = None, source_questions = None,
      confidence = header_field h ''confidence'',
      evolved_from = header_field h ''evolved_from'', tags = None\<rparr>"

text \<open>
  A text has a header block when it is the opening line \<open>---\<close>, some header text, and
  a line feed followed by three dashes.
\<close>

definition has_header :: "string \<Rightarrow> bool" where
  "has_header content = (\<exists>h r. content = ''---\<newline>'' @ h @ ''\<newline>---'' @ r)"


section \<open>The API client\<close>

text \<open>
  Every method of \<open>ApiClient\<close> sends one request and throws when the response is not a
  success. A thrown value is modelled by its text. The model keeps a log of the methods
  called, oldest first; what the server answers is given by the environment.
\<close>

type_synonym error = string

record NotePayload =
  payload_path :: string
  payload_content :: string
  payload_frontmatter :: NoteFrontmatter

typedecl unknown

record RetrievedInsight =
  insight_path :: string
  insight_content :: string
  similarity :: real
  insight_frontmatter :: "(string \<times> unknown) list"

datatype QuestionType = memory_invoke | conflict_detect | amplify

record ComparisonQuestion =
  question_type :: QuestionType
  insight_reference :: "string option"
  quote :: "string option"
  question_text :: string

record QueryRequest =
  question_content :: string
  top_k :: "real option"
  min_similarity :: "real option"

record GenerateQuestionsRequest =
  current_question :: string
  retrieved_insights :: "RetrievedInsight list"

datatype api_call =
    IndexInsight NotePayload
  | DeleteInsight string
  | ReindexInsights string
  | QueryInsights QueryRequest
  | GenerateQuestions GenerateQuestionsRequest


section \<open>The sync service\<close>

text \<open>
  What the host and the server answer to the service: the file at a path, the content of
  a file, and the outcome of the two index requests (\<open>Inl\<close> when the call throws).
\<close>

record sync_env =
  getAbstractFileByPath :: "string \<Rightarrow> TAbstractFile option"
  vault_read :: "TAbstractFile \<Rightarrow> error + string"
  api_indexInsight :: "NotePayload \<Rightarrow> error + unit"
  api_deleteInsight :: "string \<Rightarrow> error + unit"

text \<open>
  The fields of \<open>InsightSyncService\<close>. \<open>syncQueue\<close> is a JavaScript \<open>Set\<close>: its
  elements in insertion order, each once. \<open>apiCalls\<close> is the log of the API client.
  \<open>debounce\<close> is a function of the host; \<open>debounced\<close> counts the calls of
  \<open>processSyncQueueDebounced\<close>, each of them a request to the host's debouncer to run
  \<open>processSyncQueue\<close>.
\<close>

record InsightSyncService =
  syncQueue :: "string list"
  isSyncing :: bool
  apiCalls :: "api_call list"
  debounced :: nat

definition new_InsightSyncService :: InsightSyncService where
  "new_InsightSyncService = \<lparr>syncQueue = [], isSyncing = False, apiCalls = [], debounced = 0\<rparr>"

text \<open>\<open>Set.prototype.add\<close>.\<close>

definition Set_add :: "string list \<Rightarrow> string \<Rightarrow> string list" where
  "Set_add q p = (if p \<in> set q then q else q @ [p])"

definition processSyncQueueDebounced :: "InsightSyncService \<Rightarrow> InsightSyncService" where
  "processSyncQueueDebounced s = s\<lparr>debounced := Suc (debounced s)\<rparr>"

definition queueSync :: "string \<Rightarrow> InsightSyncService \<Rightarrow> InsightSyncService" where
  "queueSync p s = processSyncQueueDebounced (s\<lparr>syncQueue := Set_add (syncQueue s) p\<rparr>)"

text \<open>
  \<open>syncInsight\<close> and \<open>deleteInsight\<close> return the state together with the result:
  \<open>Inl\<close> is the error they rethrow.
\<close>

definition syncInsight ::
  "sync_env \<Rightarrow> TAbstractFile \<Rightarrow> InsightSyncService \<Rightarrow> (error + bool) \<times> InsightSyncService" where
  "syncInsight env file s =
     (if \<not> isInsightNote file then (Inr False, s)
      else
        (case vault_read env file of
           Inl e \<Rightarrow> (Inl e, s)
         | Inr content \<Rightarrow>
             (let (frontmatter, body) = parseFrontmatter content;
                  payload = \<lparr>payload_path = path file, payload_content = body,
                             payload_frontmatter = frontmatter\<rparr>;
                  s' = s\<lparr>apiCalls := apiCalls s @ [IndexInsight payload]\<rparr>
              in case api_indexInsight env payload of
                   Inl e \<Rightarrow> (Inl e, s')
                 | Inr r \<Rightarrow> (Inr True, s'))))"

definition deleteInsight ::
  "sync_env \<Rightarrow> string \<Rightarrow> InsightSyncService \<Rightarrow> (error + bool) \<times> InsightSyncService" where
  "deleteInsight env p s =
     (let s' = s\<lparr>apiCalls := apiCalls s @ [DeleteInsight p]\<rparr>
      in case api_deleteInsight env p of
           Inl e \<Rightarrow> (Inl e, s')
         | Inr r \<Rightarrow> (Inr True, s'))"

definition onFileCreate :: "TAbstractFile \<Rightarrow> InsightSyncService \<Rightarrow> InsightSyncService" where
  "onFileCreate file s =
     (if \<not> instanceof_TFile file \<or> \<not> isInsightNote file then s
      else queueSync (path file) s)"

definition onFileModify :: "TAbstractFile \<Rightarrow> InsightSyncService \<Rightarrow> InsightSyncService" where
  "onFileModify file s =
     (if \<not> instanceof_TFile file \<or> \<not> isInsightNote file then s
      else queueSync (path file) s)"

text \<open>The \<open>catch\<close> blocks of the delete and rename handlers only write to the console.\<close>

definition onFileDelete ::
  "sync_env \<Rightarrow> TAbstractFile \<Rightarrow> InsightSyncService \<Rightarrow> InsightSyncService" where
  "onFileDelete env file s =
     (if \<not> startsWith (path file) ''Insights/'' then s
      else (case deleteInsight env (path file) s of
              (Inl e, s') \<Rightarrow> s'
            | (Inr r, s') \<Rightarrow> s'))"

definition onFileRename ::
  "sync_env \<Rightarrow> TAbstractFile \<Rightarrow> string \<Rightarrow> InsightSyncService \<Rightarrow> InsightSyncService" where
  "onFileRename env file oldPath s =
     (if startsWith oldPath ''Insights/'' \<and> \<not> startsWith (path file) ''Insights/'' then
        (case deleteInsight env oldPath s of
           (Inl e, s') \<Rightarrow> s'
         | (Inr r, s') \<Rightarrow> s')
      else if \<not> startsWith oldPath ''Insights/'' \<and> startsWith (path file) ''Insights/'' then
        (if instanceof_TFile file then queueSync (path file) s else s)
      else if startsWith oldPath ''Insights/'' \<and> startsWith (path file) ''Insights/'' then
        (let s1 = (case deleteInsight env oldPath s of
                     (Inl e, s') \<Rightarrow> s'
                   | (Inr r, s') \<Rightarrow> s')
         in if instanceof_TFile file then queueSync (path file) s1 else s1)
      else s)"

subsection \<open>A drain pass\<close>

text \<open>
  \<open>processSyncQueue\<close> in three parts. \<open>pass_begin\<close> is the guard, the flag and the
  snapshot (\<open>None\<close> is the early return); \<open>sync_path\<close> is the body of the loop for one
  path of the snapshot; \<open>pass_end\<close> is the code after the loop.
\<close>

definition pass_begin :: "InsightSyncService \<Rightarrow> (string list \<times> InsightSyncService) option" where
  "pass_begin s =
     (if isSyncing s \<or> length (syncQueue s) = 0 then None
      else Some (syncQueue s, s\<lparr>isSyncing := True, syncQueue := []\<rparr>))"

definition sync_path :: "sync_env \<Rightarrow> string \<Rightarrow> InsightSyncService \<Rightarrow> InsightSyncService" where
  "sync_path env p s =
     (case getAbstractFileByPath env p of
        None \<Rightarrow> s
      | Some file \<Rightarrow>
          (if instanceof_TFile file then
             (case syncInsight env file s of
                (Inl e, s') \<Rightarrow> s'\<lparr>syncQueue := Set_add (syncQueue s') p\<rparr>
              | (Inr r, s') \<Rightarrow> s')
           else s))"

definition pass_end :: "InsightSyncService \<Rightarrow> InsightSyncService" where
  "pass_end s =
     (let s' = s\<lparr>isSyncing := False\<rparr>
      in if length (syncQueue s') > 0 then processSyncQueueDebounced s' else s')"

text \<open>A pass that no other callback interrupts.\<close>

definition processSyncQueue :: "sync_env \<Rightarrow> InsightSyncService \<Rightarrow> InsightSyncService" where
  "processSyncQueue env s =
     (case pass_begin s of
        None \<Rightarrow> s
      | Some (paths, s1) \<Rightarrow> pass_end (foldl (\<lambda>s p. sync_path env p s) s1 paths))"

subsection \<open>Callbacks that interleave\<close>

text \<open>
  The host runs one callback at a time, and a pass gives way to other callbacks while it
  waits for the host or the server. The system is the service together with the passes
  that have begun and not ended, each with the paths of its snapshot that it has not
  processed yet. An event is one callback: a file notification, the debouncer invoking
  \<open>processSyncQueue\<close>, pass number \<open>i\<close> going on with its next path (or ending,
  when none is left), or \<open>syncAllInsights\<close> calling \<open>syncInsight\<close> for one of the
  insight files, which is all it does to the service. The answers of the host and the
  server come with the event, so they may change from one event to the next.
\<close>

record sync_system =
  service :: InsightSyncService
  running :: "string list list"

datatype sync_event =
    FileCreate TAbstractFile
  | FileModify TAbstractFile
  | FileDelete sync_env TAbstractFile
  | FileRename sync_env TAbstractFile string
  | Invoke
  | Resume nat sync_env
  | SyncAllStep sync_env TAbstractFile

fun fire :: "sync_event \<Rightarrow> sync_system \<Rightarrow> sync_system" where
  "fire (FileCreate file) sys = sys\<lparr>service := onFileCreate file (service sys)\<rparr>"
| "fire (FileModify file) sys = sys\<lparr>service := onFileModify file (service sys)\<rparr>"
| "fire (FileDelete env file) sys = sys\<lparr>service := onFileDelete env file (service sys)\<rparr>"
| "fire (FileRename env file oldPath) sys =
     sys\<lparr>service := onFileRename env file oldPath (service sys)\<rparr>"
| "fire Invoke sys =
     (case pass_begin (service sys) of
        None \<Rightarrow> sys
      | Some (paths, s1) \<Rightarrow> sys\<lparr>service := s1, running := running sys @ [paths]\<rparr>)"
| "fire (Resume i env) sys =
     (if i < length (running sys) then
        (case running sys ! i of
           [] \<Rightarrow> sys\<lparr>service := pass_end (service sys),
                     running := take i (running sys) @ drop (Suc i) (running sys)\<rparr>
         | p # rest \<Rightarrow> sys\<lparr>service := sync_path env p (service sys),
                           running := (running sys)[i := rest]\<rparr>)
      else sys)"
| "fire (SyncAllStep env file) sys =
     sys\<lparr>service := snd (syncInsight env file (service sys))\<rparr>"

definition run :: "sync_event list \<Rightarrow> sync_system \<Rightarrow> sync_system" where
  "run es sys = foldl (\<lambda>sys e. fire e sys) sys es"

definition initial_system :: sync_system where
  "initial_system = \<lparr>service = new_InsightSyncService, running = []\<rparr>"





section \<open>The insight panel\<close>

text \<open>The fields of \<open>InsightPanelView\<close>; \<open>render\<close> only redraws the panel from them.\<close>

record InsightPanelView =
  currentQuestion :: "string option"
  insights :: "RetrievedInsight list"
  questions :: "ComparisonQuestion list"
  isLoading :: bool

definition new_InsightPanelView :: InsightPanelView where
  "new_InsightPanelView =
     \<lparr>currentQuestion = None, insights = [], questions = [], isLoading = False\<rparr>"

definition setLoading :: "bool \<Rightarrow> InsightPanelView \<Rightarrow> InsightPanelView" where
  "setLoading loading v = v\<lparr>isLoading := loading\<rparr>"

definition updateResults ::
  "string \<Rightarrow> RetrievedInsight list \<Rightarrow> ComparisonQuestion list \<Rightarrow> InsightPanelView \<Rightarrow>
   InsightPanelView" where
  "updateResults q ins qs v =
     v\<lparr>currentQuestion := Some q, insights := ins, questions := qs, isLoading := False\<rparr>"

definition clearResults :: "InsightPanelView \<Rightarrow> InsightPanelView" where
  "clearResults v =
     v\<lparr>currentQuestion := None, insights := [], questions := [], isLoading := False\<rparr>"


section \<open>The plugin\<close>

record AuroraOntologySettings =
  serverUrl :: string
  topK :: real
  minSimilarity :: real
  autoQuery :: bool
  autoSync :: bool
  showSimilarityScores :: bool

definition DEFAULT_SETTINGS :: AuroraOntologySettings where
  "DEFAULT_SETTINGS =
     \<lparr>serverUrl = ''http://127.0.0.1:8742'', topK = 5, minSimilarity = 3 / 10,
      autoQuery = True, autoSync = True, showSimilarityScores = True\<rparr>"

text \<open>
  The two closures that \<open>onload\<close> passes to \<open>registerEvent\<close>, and the emitter each is
  subscribed to.
\<close>

datatype event_source = Workspace | Vault

datatype event_handler = AutoQueryOnFileOpen | AutoQueryOnModify

text \<open>
  The fields of \<open>AuroraOntologyPlugin\<close>, with what it has registered at the host: the
  event subscriptions and the command ids. \<open>pluginCalls\<close> is the log of its API client,
  \<open>notices\<close> the texts shown with \<open>new Notice\<close>, and \<open>debouncedQueryCalls\<close> counts
  the calls of \<open>debouncedQuery\<close>.
\<close>

record AuroraOntologyPlugin =
  settings :: AuroraOntologySettings
  insightPanel :: "InsightPanelView option"
  pluginCalls :: "api_call list"
  notices :: "string list"
  debouncedQueryCalls :: nat
  eventRefs :: "(event_source \<times> string \<times> event_handler) list"
  commands :: "string list"

definition new_AuroraOntologyPlugin :: AuroraOntologyPlugin where
  "new_AuroraOntologyPlugin =
     \<lparr>settings = DEFAULT_SETTINGS, insightPanel = None, pluginCalls = [], notices = [],
      debouncedQueryCalls = 0, eventRefs = [], commands = []\<rparr>"

text \<open>What the host and the server answer to the plugin.\<close>

record plugin_env =
  getActiveFile :: "TAbstractFile option"
  app_vault_read :: "TAbstractFile \<Rightarrow> error + string"
  api_queryInsights :: "QueryRequest \<Rightarrow> error + RetrievedInsight list"
  api_generateQuestions :: "GenerateQuestionsRequest \<Rightarrow> error + ComparisonQuestion list"

text \<open>
  \<open>onload\<close>, with the settings that \<open>loadSettings\<close> has merged from the defaults and
  the saved data. It registers the view, the ribbon icon, three commands, the settings
  tab and two event handlers. It creates no sync service and subscribes to no
  \<open>create\<close>, \<open>delete\<close> or \<open>rename\<close> event.
\<close>

definition onload :: "AuroraOntologySettings \<Rightarrow> AuroraOntologyPlugin \<Rightarrow> AuroraOntologyPlugin" where
  "onload loaded st =
     st\<lparr>settings := loaded,
        commands := commands st @
          [''open-insight-panel'', ''query-related-insights'', ''reindex-insights''],
        eventRefs := eventRefs st @
          [(Workspace, ''file-open'', AutoQueryOnFileOpen),
           (Vault, ''modify'', AutoQueryOnModify)]\<rparr>"

definition debouncedQuery :: "AuroraOntologyPlugin \<Rightarrow> AuroraOntologyPlugin" where
  "debouncedQuery st = st\<lparr>debouncedQueryCalls := Suc (debouncedQueryCalls st)\<rparr>"

fun handle ::
  "plugin_env \<Rightarrow> event_handler \<Rightarrow> TAbstractFile option \<Rightarrow> AuroraOntologyPlugin \<Rightarrow>
   AuroraOntologyPlugin" where
  "handle env AutoQueryOnFileOpen file st =
     (case file of
        None \<Rightarrow> st
      | Some f \<Rightarrow> if autoQuery (settings st) \<and> isQuestionNote f then debouncedQuery st else st)"
| "handle env AutoQueryOnModify file st =
     (case file of
        None \<Rightarrow> st
      | Some f \<Rightarrow>
          if instanceof_TFile f \<and> autoQuery (settings st) \<and> isQuestionNote f \<and>
             map_option path (getActiveFile env) = Some (path f)
          then debouncedQuery st else st)"

text \<open>The host emitting an event: the handlers subscribed to it run in turn.\<close>

definition trigger ::
  "plugin_env \<Rightarrow> event_source \<Rightarrow> string \<Rightarrow> TAbstractFile option \<Rightarrow> AuroraOntologyPlugin \<Rightarrow>
   AuroraOntologyPlugin" where
  "trigger env src name file st =
     foldl (\<lambda>st (s, n, h). if s = src \<and> n = name then handle env h file st else st)
       st (eventRefs st)"

subsection \<open>Running a query\<close>

definition fallback_question :: ComparisonQuestion where
  "fallback_question =
     \<lparr>question_type = amplify, insight_reference = None, quote = None,
      question_text =
        ''No related Insights found. What new understanding are you seeking with this question?''\<rparr>"

text \<open>
  A method call on \<open>this.insightPanel\<close>: a \<open>TypeError\<close> when the field is \<open>null\<close>.
\<close>

definition on_panel ::
  "(InsightPanelView \<Rightarrow> InsightPanelView) \<Rightarrow> AuroraOntologyPlugin \<Rightarrow> error + AuroraOntologyPlugin" where
  "on_panel f st =
     (case insightPanel st of
        None \<Rightarrow> Inl ''TypeError: Cannot read properties of null''
      | Some v \<Rightarrow> Inr (st\<lparr>insightPanel := Some (f v)\<rparr>))"

text \<open>
  The \<open>try\<close> block of \<open>doQuery\<close>: \<open>Inl (e, st)\<close> when it throws \<open>e\<close>, with the state
  at that moment.
\<close>

definition doQuery_try ::
  "plugin_env \<Rightarrow> TAbstractFile \<Rightarrow> AuroraOntologyPlugin \<Rightarrow>
   (error \<times> AuroraOntologyPlugin) + AuroraOntologyPlugin" where
  "doQuery_try env file st =
     (case app_vault_read env file of
        Inl e \<Rightarrow> Inl (e, st)
      | Inr content \<Rightarrow>
          (let body = snd (parseFrontmatter content);
               query = \<lparr>question_content = body, top_k = Some (topK (settings st)),
                        min_similarity = Some (minSimilarity (settings st))\<rparr>;
               st1 = st\<lparr>pluginCalls := pluginCalls st @ [QueryInsights query]\<rparr>
           in case api_queryInsights env query of
                Inl e \<Rightarrow> Inl (e, st1)
              | Inr found \<Rightarrow>
                  if length found = 0 then
                    (case on_panel (updateResults body [] [fallback_question]) st1 of
                       Inl e \<Rightarrow> Inl (e, st1)
                     | Inr st2 \<Rightarrow> Inr st2)
                  else
                    (let request = \<lparr>current_question = body, retrieved_insights = found\<rparr>;
                         st2 = st1\<lparr>pluginCalls := pluginCalls st1 @ [GenerateQuestions request]\<rparr>
                     in case api_generateQuestions env request of
                          Inl e \<Rightarrow> Inl (e, st2)
                        | Inr generated \<Rightarrow>
                            (case on_panel (updateResults body found generated) st2 of
                               Inl e \<Rightarrow> Inl (e, st2)
                             | Inr st3 \<Rightarrow> Inr st3))))"

text \<open>
  \<open>doQuery\<close>: \<open>Inr\<close> when the promise it returns is fulfilled, \<open>Inl\<close> when an error
  leaves the function.
\<close>

definition doQuery ::
  "plugin_env \<Rightarrow> TAbstractFile \<Rightarrow> AuroraOntologyPlugin \<Rightarrow> error + AuroraOntologyPlugin" where
  "doQuery env file st =
     (case insightPanel st of
        None \<Rightarrow> Inr st
      | Some v \<Rightarrow>
          (case on_panel (setLoading True) st of
             Inl e \<Rightarrow> Inl e
           | Inr st0 \<Rightarrow>
               (case doQuery_try env file st0 of
                  Inr st' \<Rightarrow> Inr st'
                | Inl (e, st') \<Rightarrow>
                    on_panel clearResults
                      (st'\<lparr>notices := notices st' @ [''Query failed: '' @ e]\<rparr>))))"

section \<open>Notions used in the properties\<close>

subsection \<open>What a pass sends and requeues\<close>

text \<open>The payload that \<open>syncInsight\<close> builds for a file at path \<open>p\<close> with this content.\<close>

definition note_payload :: "string \<Rightarrow> string \<Rightarrow> NotePayload" where
  "note_payload p content =
     \<lparr>payload_path = p, payload_content = snd (parseFrontmatter content),
      payload_frontmatter = fst (parseFrontmatter content)\<rparr>"

text \<open>An index request for the note at path \<open>p\<close>.\<close>

fun is_upsert_for :: "string \<Rightarrow> api_call \<Rightarrow> bool" where
  "is_upsert_for p (IndexInsight payload) = (payload_path payload = p)"
| "is_upsert_for p c = False"

text \<open>
  One iteration of the loop, read off \<open>sync_path\<close> and \<open>syncInsight\<close>: the requests it
  sends for a path, and whether it puts the path back into the queue.
\<close>

definition calls_of :: "sync_env \<Rightarrow> string \<Rightarrow> api_call list" where
  "calls_of env p =
     (case getAbstractFileByPath env p of
        None \<Rightarrow> []
      | Some file \<Rightarrow>
          if instanceof_TFile file \<and> isInsightNote file then
            (case vault_read env file of
               Inl e \<Rightarrow> []
             | Inr content \<Rightarrow> [IndexInsight (note_payload (path file) content)])
          else [])"

definition sync_fails :: "sync_env \<Rightarrow> string \<Rightarrow> bool" where
  "sync_fails env p =
     (case getAbstractFileByPath env p of
        None \<Rightarrow> False
      | Some file \<Rightarrow>
          instanceof_TFile file \<and> isInsightNote file \<and>
          (case vault_read env file of
             Inl e \<Rightarrow> True
           | Inr content \<Rightarrow>
               (case api_indexInsight env (note_payload (path file) content) of
                  Inl e \<Rightarrow> True | Inr r \<Rightarrow> False)))"





subsection \<open>The retrieval request of a query\<close>

definition query_of :: "string \<Rightarrow> AuroraOntologyPlugin \<Rightarrow> QueryRequest" where
  "query_of content st =
     \<lparr>question_content = snd (parseFrontmatter content), top_k = Some (topK (settings st)),
      min_similarity = Some (minSimilarity (settings st))\<rparr>"


section \<open>Example runs\<close>

text \<open>
  A vault where every path under \<open>Insights/\<close> is a file with content \<open>X\<close>, and a server
  that rejects the index requests for the paths in \<open>failing\<close> and every delete request.
\<close>

definition example_env :: "string list \<Rightarrow> sync_env" where
  "example_env failing =
     \<lparr>getAbstractFileByPath = (\<lambda>p. if startsWith p ''Insights/'' then Some (TFile p) else None),
      vault_read = (\<lambda>f. Inr ''X''),
      api_indexInsight =
        (\<lambda>payload. if payload_path payload \<in> set failing
           then Inl ''Error: API Error (500): down'' else Inr ()),
      api_deleteInsight = (\<lambda>p. Inl ''Error: API Error (500): down'')\<rparr>"






text \<open>A service with two paths queued and no pass running.\<close>

definition two_queued :: InsightSyncService where
  "two_queued = queueSync ''Insights/b.md'' (queueSync ''Insights/a.md'' new_InsightSyncService)"

text \<open>
  A plugin whose panel shows the results of an earlier query, and a host where the
  question note has a header and the body \<open>why\<close>.
\<close>

definition example_insight :: RetrievedInsight where
  "example_insight =
     \<lparr>insight_path = ''Insights/a.md'', insight_content = ''X'', similarity = 9 / 10,
      insight_frontmatter = []\<rparr>"

definition showing_results :: AuroraOntologyPlugin where
  "showing_results =
     new_AuroraOntologyPlugin
       \<lparr>insightPanel := Some \<lparr>currentQuestion = Some ''old'', insights = [example_insight],
                               questions = [fallback_question], isLoading = False\<rparr>\<rparr>"

definition example_plugin_env ::
  "(error + RetrievedInsight list) \<Rightarrow> (error + ComparisonQuestion list) \<Rightarrow> plugin_env" where
  "example_plugin_env found generated =
     \<lparr>getActiveFile = Some (TFile ''Questions/q.md''),
      app_vault_read = (\<lambda>f. Inr ''---\<newline>type: question\<newline>---\<newline>why''),
      api_queryInsights = (\<lambda>q. found),
      api_generateQuestions = (\<lambda>r. generated)\<rparr>"


section \<open>Properties of the frontmatter parser\<close>

lemma indexOf_le: "indexOf s c = Some i \<Longrightarrow> i < length s"
  by (induction s arbitrary: i) (auto split: if_splits)

lemma slice_take: "i \<le> length s \<Longrightarrow> slice s 0 (int i) = take i s"
  by (simp add: slice_def Let_def min_def)

lemma startsWith_append: "startsWith s p \<Longrightarrow> n = length p \<Longrightarrow> s = p @ drop n s"
  by (metis append_take_drop_id startsWith_def)

lemma slice_from_drop: "slice_from s (int i + 1) = drop (Suc i) s"
proof -
  have "nat (int i + 1) = Suc i" by simp
  then show ?thesis
    by (auto simp: slice_from_def slice_def Let_def min_def)
qed

lemma find_close_sound:
  "find_close s = Some (a, b) \<Longrightarrow> s = a @ ''\<newline>---'' @ b"
proof (induction s arbitrary: a b)
  case Nil
  then show ?case by simp
next
  case (Cons c cs)
  show ?case
  proof (cases "startsWith (c # cs) ''\<newline>---''")
    case True
    with Cons.prems have "a = []" "b = drop 4 (c # cs)" by auto
    moreover from True have "c # cs = ''\<newline>---'' @ drop 4 (c # cs)"
      by (rule startsWith_append) simp
    ultimately show ?thesis by simp
  next
    case False
    with Cons.prems obtain a' where "find_close cs = Some (a', b)" "a = c # a'"
      by (auto split: prod.splits)
    with Cons.IH show ?thesis by simp
  qed
qed

lemma find_close_complete: "find_close (h @ ''\<newline>---'' @ r) \<noteq> None"
  by (induction h) (auto simp: startsWith_def)

lemma find_close_first:
  "find_close h = None \<Longrightarrow> find_close (h @ ''\<newline>---'' @ r) = Some (h, r)"
proof (induction h)
  case Nil
  then show ?case by (simp add: startsWith_def)
next
  case (Cons c cs)
  from Cons.prems have ns: "\<not> startsWith (c # cs) ''\<newline>---''" and n: "find_close cs = None"
    by (auto split: if_splits)
  have "\<not> startsWith (c # cs @ ''\<newline>---'' @ r) ''\<newline>---''"
    using ns by (cases cs; cases "tl cs"; cases "tl (tl cs)") (auto simp: startsWith_def)
  with Cons.IH[OF n] show ?case by simp
qed

lemma has_header_iff: "has_header content \<longleftrightarrow> match_frontmatter content \<noteq> None"
proof
  assume "has_header content"
  then obtain h r where "content = ''---\<newline>'' @ h @ ''\<newline>---'' @ r"
    unfolding has_header_def by blast
  then show "match_frontmatter content \<noteq> None"
    using find_close_complete[of h r]
    by (auto simp: match_frontmatter_def startsWith_def split: option.splits)
next
  assume "match_frontmatter content \<noteq> None"
  then obtain h b where m: "match_frontmatter content = Some (h, b)" by auto
  then have s: "startsWith content ''---\<newline>''"
    by (auto simp: match_frontmatter_def split: if_splits)
  with m obtain r where "find_close (drop 4 content) = Some (h, r)"
    by (auto simp: match_frontmatter_def split: option.splits)
  then have "drop 4 content = h @ ''\<newline>---'' @ r" by (rule find_close_sound)
  moreover from s have "content = ''---\<newline>'' @ drop 4 content"
    by (rule startsWith_append) simp
  ultimately show "has_header content" unfolding has_header_def by metis
qed


lemma line_entry_slices:
  "indexOf l CHR '':'' = Some i \<Longrightarrow>
   line_entry l = Some (trim (slice l 0 (int i)), unquote (trim (slice_from l (int i + 1))))"
  by (simp add: line_entry_def slice_from_drop slice_take indexOf_le less_imp_le)

lemma line_entry_None: "indexOf l CHR '':'' = None \<Longrightarrow> line_entry l = None"
  by (simp add: line_entry_def)

lemma map_filter_snoc:
  "List.map_filter f (xs @ [x]) =
     List.map_filter f xs @ (case f x of None \<Rightarrow> [] | Some y \<Rightarrow> [y])"
  by (simp add: List.map_filter_def split: option.splits)

lemma foldl_field:
  assumes step: "\<And>fm l. sel (parse_line fm l) =
      (case line_entry l of None \<Rightarrow> sel fm
       | Some (k, v) \<Rightarrow> if k = kname then Some v else sel fm)"
  shows "sel (foldl parse_line fm ls) =
      (case map_of (rev (List.map_filter line_entry ls)) kname of
         None \<Rightarrow> sel fm | Some v \<Rightarrow> Some v)"
proof (induction ls rule: rev_induct)
  case Nil
  then show ?case by (simp add: List.map_filter_simps)
next
  case (snoc l ls)
  then show ?case
    by (simp add: step map_filter_snoc split: option.splits prod.splits)
qed

lemma foldl_keep:
  assumes step: "\<And>fm l. sel (parse_line fm l) = sel fm"
  shows "sel (foldl parse_line fm ls) = sel fm"
  by (induction ls rule: rev_induct) (simp_all add: step)

lemma parse_line_fm_type:
  "fm_type (parse_line fm l) =
     (case line_entry l of None \<Rightarrow> fm_type fm
      | Some (k, v) \<Rightarrow> if k = ''type'' then Some v else fm_type fm)"
  by (cases "indexOf l CHR '':''")
     (simp_all add: line_entry_None line_entry_slices parse_line_def Let_def)

lemma parse_line_created:
  "created (parse_line fm l) =
     (case line_entry l of None \<Rightarrow> created fm
      | Some (k, v) \<Rightarrow> if k = ''created'' then Some v else created fm)"
  by (cases "indexOf l CHR '':''")
     (simp_all add: line_entry_None line_entry_slices parse_line_def Let_def)

lemma parse_line_status:
  "status (parse_line fm l) =
     (case line_entry l of None \<Rightarrow> status fm
      | Some (k, v) \<Rightarrow> if k = ''status'' then Some v else status fm)"
  by (cases "indexOf l CHR '':''")
     (simp_all add: line_entry_None line_entry_slices parse_line_def Let_def)

lemma parse_line_triggered_by:
  "triggered_by (parse_line fm l) =
     (case line_entry l of None \<Rightarrow> triggered_by fm
      | Some (k, v) \<Rightarrow> if k = ''triggered_by'' then Some v else triggered_by fm)"
  by (cases "indexOf l CHR '':''")
     (simp_all add: line_entry_None line_entry_slices parse_line_def Let_def)

lemma parse_line_confidence:
  "confidence (parse_line fm l) =
     (case line_entry l of None \<Rightarrow> confidence fm
      | Some (k, v) \<Rightarrow> if k = ''confidence'' then Some v else confidence fm)"
  by (cases "indexOf l CHR '':''")
     (simp_all add: line_entry_None line_entry_slices parse_line_def Let_def)

lemma parse_line_evolved_from:
  "evolved_from (parse_line fm l) =
     (case line_entry l of None \<Rightarrow> evolved_from fm
      | Some (k, v) \<Rightarrow> if k = ''evolved_from'' then Some v else evolved_from fm)"
  by (cases "indexOf l CHR '':''")
     (simp_all add: line_entry_None line_entry_slices parse_line_def Let_def)

lemma parse_line_lists:
  "related_insights (parse_line fm l) = related_insights fm"
  "related_questions (parse_line fm l) = related_questions fm"
  "source_questions (parse_line fm l) = source_questions fm"
  "tags (parse_line fm l) = tags fm"
  "NoteFrontmatter.more (parse_line fm l) = NoteFrontmatter.more fm"
  by (simp_all add: parse_line_def Let_def split: option.splits)

lemma foldl_parse_line:
  "foldl parse_line empty_frontmatter (split h CHR ''\<newline>'') = header_frontmatter h"
proof (rule NoteFrontmatter.equality)
  show "fm_type (foldl parse_line empty_frontmatter (split h CHR ''\<newline>'')) =
      fm_type (header_frontmatter h)"
    by (simp add: foldl_field[of fm_type, OF parse_line_fm_type] header_frontmatter_def
        header_field_def header_entries_def empty_frontmatter_def split: option.splits)
  show "created (foldl parse_line empty_frontmatter (split h CHR ''\<newline>'')) =
      created (header_frontmatter h)"
    by (simp add: foldl_field[of created, OF parse_line_created] header_frontmatter_def
        header_field_def header_entries_def empty_frontmatter_def split: option.splits)
  show "status (foldl parse_line empty_frontmatter (split h CHR ''\<newline>'')) =
      status (header_frontmatter h)"
    by (simp add: foldl_field[of status, OF parse_line_status] header_frontmatter_def
        header_field_def header_entries_def empty_frontmatter_def split: option.splits)
  show "triggered_by (foldl parse_line empty_frontmatter (split h CHR ''\<newline>'')) =
      triggered_by (header_frontmatter h)"
    by (simp add: foldl_field[of triggered_by, OF parse_line_triggered_by]
        header_frontmatter_def header_field_def header_entries_def empty_frontmatter_def
        split: option.splits)
  show "confidence (foldl parse_line empty_frontmatter (split h CHR ''\<newline>'')) =
      confidence (header_frontmatter h)"
    by (simp add: foldl_field[of confidence, OF parse_line_confidence]
        header_frontmatter_def header_field_def header_entries_def empty_frontmatter_def
        split: option.splits)
  show "evolved_from (foldl parse_line empty_frontmatter (split h CHR ''\<newline>'')) =
      evolved_from (header_frontmatter h)"
    by (simp add: foldl_field[of evolved_from, OF parse_line_evolved_from]
        header_frontmatter_def header_field_def header_entries_def empty_frontmatter_def
        split: option.splits)
qed (simp_all add: foldl_keep parse_line_lists header_frontmatter_def empty_frontmatter_def)

lemma find_close_None_iff:
  "find_close h = None \<longleftrightarrow> \<not> (\<exists>a b. h = a @ ''\<newline>---'' @ b)"
proof
  assume n: "find_close h = None"
  show "\<not> (\<exists>a b. h = a @ ''\<newline>---'' @ b)"
  proof
    assume "\<exists>a b. h = a @ ''\<newline>---'' @ b"
    then obtain a b where "h = a @ ''\<newline>---'' @ b" by blast
    with find_close_complete[of a b] n show False by simp
  qed
next
  assume n: "\<not> (\<exists>a b. h = a @ ''\<newline>---'' @ b)"
  show "find_close h = None"
  proof (cases "find_close h")
    case None
    then show ?thesis .
  next
    case (Some ab)
    then obtain a b where "find_close h = Some (a, b)" by (cases ab) simp
    then have "h = a @ ''\<newline>---'' @ b" by (rule find_close_sound)
    with n show ?thesis by blast
  qed
qed

lemmas parse_eval = parseFrontmatter_def match_frontmatter_def startsWith_def endsWith_def
  parse_line_def trim_def is_white_space_def slice_def slice_from_def unquote_def
  header_frontmatter_def header_field_def header_entries_def line_entry_def
  List.map_filter_def empty_frontmatter_def

text \<open>
  Claim C9, as the code has it. For a text made of the opening line \<open>---\<close>, a header
  \<open>h\<close> in which no line feed is followed by three dashes, the closing \<open>\n---\<close> and a
  rest \<open>r\<close>, \<open>parseFrontmatter\<close> returns: for each of the keys \<open>type\<close>,
  \<open>created\<close>, \<open>status\<close>, \<open>triggered_by\<close>, \<open>confidence\<close> and \<open>evolved_from\<close> the
  trimmed value, without its quotes, of the last header line with that key, and nothing
  when no line has it; nothing for the list fields \<open>related_insights\<close>,
  \<open>related_questions\<close>, \<open>source_questions\<close> and \<open>tags\<close>, whatever the header says, and
  nothing for any other key; and as body the rest \<open>r\<close> without the one line feed that may
  begin it.
\<close>

theorem parse_header:
  assumes "\<not> (\<exists>a b. h = a @ ''\<newline>---'' @ b)"
  shows "parseFrontmatter (''---\<newline>'' @ h @ ''\<newline>---'' @ r) =
           (header_frontmatter h, if startsWith r ''\<newline>'' then drop 1 r else r)"
proof -
  from assms have "find_close h = None" by (simp add: find_close_None_iff)
  then have "find_close (h @ ''\<newline>---'' @ r) = Some (h, r)" by (rule find_close_first)
  then have "match_frontmatter (''---\<newline>'' @ h @ ''\<newline>---'' @ r) =
      Some (h, if startsWith r ''\<newline>'' then drop 1 r else r)"
    by (simp add: match_frontmatter_def startsWith_def)
  then show ?thesis
    by (simp add: parseFrontmatter_def foldl_parse_line)
qed

theorem parse_header_witness:
  "parseFrontmatter ''---\<newline>type: a\<newline>hue: red\<newline>status: \"b c\"\<newline>type: d\<newline>---\<newline>Body'' =
     (empty_frontmatter\<lparr>fm_type := Some ''d'', status := Some ''b c''\<rparr>, ''Body'')"
proof -
  have "find_close ''type: a\<newline>hue: red\<newline>status: \"b c\"\<newline>type: d'' = None"
    by (simp add: startsWith_def)
  then have "\<not> (\<exists>a b. ''type: a\<newline>hue: red\<newline>status: \"b c\"\<newline>type: d'' = a @ ''\<newline>---'' @ b)"
    by (rule iffD1[OF find_close_None_iff])
  from parse_header[OF this, of "''\<newline>Body''"] show ?thesis
    by (simp add: parse_eval)
qed

text \<open>
  Claim C9 as stated counts the related-note lists and the tags among the fields that
  \<open>parse\<close> recovers. A header with a \<open>tags\<close> line has that entry, and the result has no
  tags.
\<close>

theorem parse_tags_counterexample:
  "header_field ''type: a\<newline>tags: [b, c]'' ''tags'' = Some ''[b, c]'' \<and>
   tags (fst (parseFrontmatter ''---\<newline>type: a\<newline>tags: [b, c]\<newline>---\<newline>Body'')) = None"
  by (simp add: parse_eval)

text \<open>
  Claim C10. \<open>parseFrontmatter\<close> is a total function with no error result: the string
  methods it calls do not throw. For a text without a header block, where the opening
  line \<open>---\<close> or a later \<open>\n---\<close> is missing, it returns the empty frontmatter and the
  whole text as body.
\<close>

theorem parse_no_header:
  assumes "\<not> has_header content"
  shows "parseFrontmatter content = (empty_frontmatter, content)"
proof -
  from assms have "match_frontmatter content = None"
    unfolding has_header_iff by blast
  then show ?thesis by (simp add: parseFrontmatter_def)
qed

theorem parse_no_header_witness:
  "parseFrontmatter ''---\<newline>type: a\<newline>never closed'' =
     (empty_frontmatter, ''---\<newline>type: a\<newline>never closed'')"
proof -
  have "\<not> has_header ''---\<newline>type: a\<newline>never closed''"
    by (simp add: has_header_iff match_frontmatter_def startsWith_def)
  then show ?thesis by (rule parse_no_header)
qed

section \<open>Properties of the sync service\<close>

lemma sync_path_eq:
  "sync_path env p s =
     s\<lparr>syncQueue := (if sync_fails env p then Set_add (syncQueue s) p else syncQueue s),
       apiCalls := apiCalls s @ calls_of env p\<rparr>"
  by (simp add: sync_path_def syncInsight_def calls_of_def sync_fails_def note_payload_def
      Let_def split: option.splits sum.splits prod.splits)

lemma set_Set_add: "set (Set_add q p) = insert p (set q)"
  by (auto simp: Set_add_def)

lemma distinct_Set_add: "distinct q \<Longrightarrow> distinct (Set_add q p)"
  by (simp add: Set_add_def)

lemma foldl_sync_path:
  "foldl (\<lambda>s p. sync_path env p s) s ps =
     s\<lparr>syncQueue := foldl Set_add (syncQueue s) (filter (sync_fails env) ps),
       apiCalls := apiCalls s @ concat (map (calls_of env) ps)\<rparr>"
proof (induction ps arbitrary: s)
  case Nil
  then show ?case by simp
next
  case (Cons p ps)
  have "foldl (\<lambda>s p. sync_path env p s) s (p # ps) =
      foldl (\<lambda>s p. sync_path env p s) (sync_path env p s) ps"
    by simp
  also have "\<dots> = (sync_path env p s)
      \<lparr>syncQueue := foldl Set_add (syncQueue (sync_path env p s)) (filter (sync_fails env) ps),
       apiCalls := apiCalls (sync_path env p s) @ concat (map (calls_of env) ps)\<rparr>"
    by (rule Cons.IH)
  also have "\<dots> = s
      \<lparr>syncQueue := foldl Set_add (syncQueue s) (filter (sync_fails env) (p # ps)),
       apiCalls := apiCalls s @ concat (map (calls_of env) (p # ps))\<rparr>"
    by (simp add: sync_path_eq)
  finally show ?case .
qed

lemma set_foldl_Set_add: "set (foldl Set_add q ps) = set q \<union> set ps"
  by (induction ps arbitrary: q) (auto simp: set_Set_add)

lemma processSyncQueue_eq:
  assumes "\<not> isSyncing s"
  shows "processSyncQueue env s =
     (let q = foldl Set_add [] (filter (sync_fails env) (syncQueue s))
      in s\<lparr>syncQueue := q,
           apiCalls := apiCalls s @ concat (map (calls_of env) (syncQueue s)),
           debounced := (if q = [] then debounced s else Suc (debounced s))\<rparr>)"
  using assms
  by (cases "syncQueue s = []")
     (simp_all add: processSyncQueue_def pass_begin_def pass_end_def foldl_sync_path Let_def
      processSyncQueueDebounced_def)

lemma calls_of_file:
  assumes "getAbstractFileByPath env P = Some (TFile P)" "isInsightNote (TFile P)"
    "vault_read env (TFile P) = Inr content"
  shows "calls_of env P = [IndexInsight (note_payload P content)]"
  using assms by (simp add: calls_of_def)

lemma sync_fails_file:
  assumes "getAbstractFileByPath env P = Some (TFile P)" "isInsightNote (TFile P)"
    "vault_read env (TFile P) = Inr content"
    "api_indexInsight env (note_payload P content) = Inl e"
  shows "sync_fails env P"
  using assms by (simp add: sync_fails_def)

lemma new_calls_pass:
  assumes "\<not> isSyncing s"
  shows "drop (length (apiCalls s)) (apiCalls (processSyncQueue env s)) =
     concat (map (calls_of env) (syncQueue s))"
  using assms by (simp add: processSyncQueue_eq Let_def)

lemma pass_issues:
  assumes "\<not> isSyncing s" "Q \<in> set (syncQueue s)"
    "getAbstractFileByPath env Q = Some (TFile Q)" "isInsightNote (TFile Q)"
    "vault_read env (TFile Q) = Inr c"
  shows "IndexInsight (note_payload Q c) \<in>
     set (drop (length (apiCalls s)) (apiCalls (processSyncQueue env s)))"
proof -
  have "IndexInsight (note_payload Q c) \<in> set (calls_of env Q)"
    using assms(3-5) by (simp add: calls_of_file)
  with assms(2) show ?thesis
    unfolding new_calls_pass[OF assms(1)] by auto
qed

lemma funpow_queueSync:
  "0 < N \<Longrightarrow> (queueSync P ^^ N) s =
     s\<lparr>syncQueue := Set_add (syncQueue s) P, debounced := debounced s + N\<rparr>"
proof (induction N)
  case 0
  then show ?case by simp
next
  case (Suc N)
  show ?case
  proof (cases "N = 0")
    case True
    then show ?thesis
      by (simp add: queueSync_def processSyncQueueDebounced_def)
  next
    case False
    with Suc.IH show ?thesis
      by (simp add: queueSync_def processSyncQueueDebounced_def Set_add_def)
  qed
qed

lemma count_list_distinct:
  "distinct q \<Longrightarrow> P \<in> set q \<Longrightarrow> count_list q P = 1"
  by (induction q) auto

lemma count_list_Set_add:
  "distinct q \<Longrightarrow> count_list (Set_add q P) P = 1"
  by (simp add: Set_add_def count_list_distinct)

lemma calls_of_cases:
  "calls_of env Q = [] \<or>
   (\<exists>f c. getAbstractFileByPath env Q = Some f \<and>
      calls_of env Q = [IndexInsight (note_payload (path f) c)])"
  by (auto simp: calls_of_def split: option.splits sum.splits)

lemma upserts_elsewhere:
  assumes "\<forall>q f. getAbstractFileByPath env q = Some f \<longrightarrow> path f = q" "Q \<noteq> P"
  shows "filter (is_upsert_for P) (calls_of env Q) = []"
proof -
  consider "calls_of env Q = []"
    | f c where "getAbstractFileByPath env Q = Some f"
        "calls_of env Q = [IndexInsight (note_payload (path f) c)]"
    using calls_of_cases[of env Q] by blast
  then show ?thesis
  proof cases
    case 1
    then show ?thesis by simp
  next
    case 2
    from 2(1) assms(1) have "path f = Q" by blast
    with 2(2) assms(2) show ?thesis by (simp add: note_payload_def)
  qed
qed

lemma upserts_distinct:
  assumes "\<forall>q f. getAbstractFileByPath env q = Some f \<longrightarrow> path f = q"
    "distinct ps" "P \<in> set ps"
  shows "filter (is_upsert_for P) (concat (map (calls_of env) ps)) =
     filter (is_upsert_for P) (calls_of env P)"
  using assms(2,3)
proof (induction ps)
  case Nil
  then show ?case by simp
next
  case (Cons q ps)
  show ?case
  proof (cases "q = P")
    case True
    with Cons.prems have "P \<notin> set ps" by simp
    then have "filter (is_upsert_for P) (concat (map (calls_of env) ps)) = []"
      using upserts_elsewhere[OF assms(1)]
      by (induction ps) auto
    with True show ?thesis by simp
  next
    case False
    with Cons show ?thesis
      by (simp add: upserts_elsewhere[OF assms(1)])
  qed
qed






















lemmas sync_eval = run_def initial_system_def new_InsightSyncService_def onFileCreate_def
  onFileModify_def onFileDelete_def onFileRename_def queueSync_def Set_add_def
  processSyncQueueDebounced_def isInsightNote_def classifyNote_def startsWith_def
  pass_begin_def pass_end_def sync_path_def syncInsight_def deleteInsight_def
  parseFrontmatter_def match_frontmatter_def note_payload_def example_env_def Let_def









text \<open>
  Claim C3. A pass that no other callback interrupts, with \<open>P\<close> in its snapshot, \<open>P\<close> a
  readable insight note, and the index request for \<open>P\<close> failing. When the pass is over,
  \<open>P\<close> is in the pending set again, the flag is down, and the pass has called
  \<open>processSyncQueueDebounced\<close> once, which asks the host's debouncer for a further
  pass. Every path of the snapshot that is a readable insight note had its index request
  sent in this pass, whatever failed. The next pass sends the index request for \<open>P\<close>
  again, if \<open>P\<close> is still a readable file.
\<close>

theorem failed_upsert_requeued:
  assumes "\<not> isSyncing s" and "P \<in> set (syncQueue s)"
    and "getAbstractFileByPath env P = Some (TFile P)" and "isInsightNote (TFile P)"
    and "vault_read env (TFile P) = Inr content"
    and "api_indexInsight env (note_payload P content) = Inl e"
  shows "P \<in> set (syncQueue (processSyncQueue env s)) \<and>
    \<not> isSyncing (processSyncQueue env s) \<and>
    debounced (processSyncQueue env s) = Suc (debounced s) \<and>
    (\<forall>Q c. Q \<in> set (syncQueue s) \<and> getAbstractFileByPath env Q = Some (TFile Q) \<and>
        isInsightNote (TFile Q) \<and> vault_read env (TFile Q) = Inr c \<longrightarrow>
      IndexInsight (note_payload Q c) \<in>
        set (drop (length (apiCalls s)) (apiCalls (processSyncQueue env s)))) \<and>
    (\<forall>env' c. getAbstractFileByPath env' P = Some (TFile P) \<and>
        vault_read env' (TFile P) = Inr c \<longrightarrow>
      IndexInsight (note_payload P c) \<in>
        set (drop (length (apiCalls (processSyncQueue env s)))
          (apiCalls (processSyncQueue env' (processSyncQueue env s)))))"
proof -
  let ?s' = "processSyncQueue env s"
  have f: "sync_fails env P"
    using assms(3-6) by (rule sync_fails_file)
  have q: "set (syncQueue ?s') = set (filter (sync_fails env) (syncQueue s))"
    using assms(1) by (simp add: processSyncQueue_eq Let_def set_foldl_Set_add)
  with f assms(2) have 1: "P \<in> set (syncQueue ?s')" by simp
  have 2: "\<not> isSyncing ?s'"
    using assms(1) by (simp add: processSyncQueue_eq Let_def)
  from 1 have "foldl Set_add [] (filter (sync_fails env) (syncQueue s)) \<noteq> []"
    using assms(1) by (auto simp: processSyncQueue_eq Let_def)
  then have 3: "debounced ?s' = Suc (debounced s)"
    using assms(1) by (simp add: processSyncQueue_eq Let_def)
  have 4: "\<forall>Q c. Q \<in> set (syncQueue s) \<and> getAbstractFileByPath env Q = Some (TFile Q) \<and>
        isInsightNote (TFile Q) \<and> vault_read env (TFile Q) = Inr c \<longrightarrow>
      IndexInsight (note_payload Q c) \<in> set (drop (length (apiCalls s)) (apiCalls ?s'))"
    using pass_issues[OF assms(1)] by blast
  have 5: "\<forall>env' c. getAbstractFileByPath env' P = Some (TFile P) \<and>
        vault_read env' (TFile P) = Inr c \<longrightarrow>
      IndexInsight (note_payload P c) \<in>
        set (drop (length (apiCalls ?s')) (apiCalls (processSyncQueue env' ?s')))"
    using pass_issues[OF 2 1 _ assms(4)] by blast
  from 1 2 3 4 5 show ?thesis by blast
qed

theorem failed_upsert_requeued_witness:
  "''Insights/b.md'' \<in> set (syncQueue (processSyncQueue (example_env [''Insights/b.md'']) two_queued)) \<and>
   \<not> isSyncing (processSyncQueue (example_env [''Insights/b.md'']) two_queued) \<and>
   debounced (processSyncQueue (example_env [''Insights/b.md'']) two_queued) = 3 \<and>
   IndexInsight (note_payload ''Insights/a.md'' ''X'') \<in>
     set (drop (length (apiCalls two_queued))
       (apiCalls (processSyncQueue (example_env [''Insights/b.md'']) two_queued))) \<and>
   IndexInsight (note_payload ''Insights/b.md'' ''X'') \<in>
     set (drop (length (apiCalls (processSyncQueue (example_env [''Insights/b.md'']) two_queued)))
       (apiCalls (processSyncQueue (example_env [])
          (processSyncQueue (example_env [''Insights/b.md'']) two_queued))))"
proof -
  have q: "two_queued =
     \<lparr>syncQueue = [''Insights/a.md'', ''Insights/b.md''], isSyncing = False, apiCalls = [],
      debounced = 2\<rparr>"
    by (simp add: two_queued_def sync_eval)
  have 1: "\<not> isSyncing two_queued" "''Insights/b.md'' \<in> set (syncQueue two_queued)"
    "''Insights/a.md'' \<in> set (syncQueue two_queued)"
    by (simp_all add: q)
  have 2: "getAbstractFileByPath (example_env [''Insights/b.md'']) ''Insights/b.md'' =
      Some (TFile ''Insights/b.md'')"
    "getAbstractFileByPath (example_env [''Insights/b.md'']) ''Insights/a.md'' =
      Some (TFile ''Insights/a.md'')"
    "getAbstractFileByPath (example_env []) ''Insights/b.md'' = Some (TFile ''Insights/b.md'')"
    "isInsightNote (TFile ''Insights/b.md'')" "isInsightNote (TFile ''Insights/a.md'')"
    by (simp_all add: example_env_def startsWith_def isInsightNote_def classifyNote_def)
  have 3: "vault_read (example_env [''Insights/b.md'']) (TFile ''Insights/b.md'') = Inr ''X''"
    "vault_read (example_env [''Insights/b.md'']) (TFile ''Insights/a.md'') = Inr ''X''"
    "vault_read (example_env []) (TFile ''Insights/b.md'') = Inr ''X''"
    "api_indexInsight (example_env [''Insights/b.md'']) (note_payload ''Insights/b.md'' ''X'') =
      Inl ''Error: API Error (500): down''"
    by (simp_all add: example_env_def note_payload_def)
  from failed_upsert_requeued[OF 1(1) 1(2) 2(1) 2(4) 3(1) 3(4)] 1 2 3 show ?thesis
    by (simp add: q)
qed

text \<open>
  Claim C4. After \<open>N \<ge> 1\<close> calls of \<open>queueSync P\<close> with no pass in between, the pending
  set has \<open>P\<close> once; and the next pass sends one index request for \<open>P\<close>, when \<open>P\<close> is a
  readable insight note and the vault returns for each path the file at that path.
\<close>

theorem enqueue_idempotent:
  assumes "0 < N" and "\<not> isSyncing s" and "distinct (syncQueue s)"
    and "\<forall>q f. getAbstractFileByPath env q = Some f \<longrightarrow> path f = q"
    and "getAbstractFileByPath env P = Some (TFile P)" and "isInsightNote (TFile P)"
    and "vault_read env (TFile P) = Inr content"
  shows "count_list (syncQueue ((queueSync P ^^ N) s)) P = 1 \<and>
    filter (is_upsert_for P)
      (drop (length (apiCalls ((queueSync P ^^ N) s)))
        (apiCalls (processSyncQueue env ((queueSync P ^^ N) s)))) =
      [IndexInsight (note_payload P content)]"
proof -
  let ?s = "(queueSync P ^^ N) s"
  have s: "?s = s\<lparr>syncQueue := Set_add (syncQueue s) P, debounced := debounced s + N\<rparr>"
    using assms(1) by (rule funpow_queueSync)
  have 1: "count_list (syncQueue ?s) P = 1"
    using assms(3) by (simp add: s count_list_Set_add)
  have n: "\<not> isSyncing ?s" using assms(2) by (simp add: s)
  have d: "distinct (syncQueue ?s)" using assms(3) by (simp add: s distinct_Set_add)
  have m: "P \<in> set (syncQueue ?s)" by (simp add: s set_Set_add)
  have "filter (is_upsert_for P)
      (drop (length (apiCalls ?s)) (apiCalls (processSyncQueue env ?s))) =
      filter (is_upsert_for P) (calls_of env P)"
    unfolding new_calls_pass[OF n] using assms(4) d m by (rule upserts_distinct)
  also have "\<dots> = [IndexInsight (note_payload P content)]"
    using assms(5-7) by (simp add: calls_of_file note_payload_def)
  finally show ?thesis using 1 by simp
qed

theorem enqueue_idempotent_witness:
  "count_list (syncQueue ((queueSync ''Insights/a.md'' ^^ 3) two_queued)) ''Insights/a.md'' = 1 \<and>
   filter (is_upsert_for ''Insights/a.md'')
     (drop (length (apiCalls ((queueSync ''Insights/a.md'' ^^ 3) two_queued)))
        (apiCalls (processSyncQueue (example_env [])
           ((queueSync ''Insights/a.md'' ^^ 3) two_queued)))) =
     [IndexInsight (note_payload ''Insights/a.md'' ''X'')]"
proof -
  have q: "two_queued =
     \<lparr>syncQueue = [''Insights/a.md'', ''Insights/b.md''], isSyncing = False, apiCalls = [],
      debounced = 2\<rparr>"
    by (simp add: two_queued_def sync_eval)
  have 1: "(0::nat) < 3" "\<not> isSyncing two_queued" "distinct (syncQueue two_queued)"
    by (simp_all add: q)
  have 2: "\<forall>q f. getAbstractFileByPath (example_env []) q = Some f \<longrightarrow> path f = q"
    by (auto simp: example_env_def)
  have 3: "getAbstractFileByPath (example_env []) ''Insights/a.md'' = Some (TFile ''Insights/a.md'')"
    "isInsightNote (TFile ''Insights/a.md'')"
    "vault_read (example_env []) (TFile ''Insights/a.md'') = Inr ''X''"
    by (simp_all add: example_env_def startsWith_def isInsightNote_def classifyNote_def)
  from enqueue_idempotent[OF 1 2 3] show ?thesis .
qed

text \<open>
  Claim C5. A rename from a path \<open>A\<close> under \<open>Insights/\<close> to a path outside it sends the
  one request \<open>DeleteInsight A\<close>, whether the server accepts it or not, and nothing else;
  the pending set is unchanged, so the new path is not added, and no pass is asked for.
\<close>

theorem rename_out_of_insights:
  assumes "startsWith A ''Insights/''" and "\<not> startsWith (path file) ''Insights/''"
  shows "apiCalls (onFileRename env file A s) = apiCalls s @ [DeleteInsight A] \<and>
    syncQueue (onFileRename env file A s) = syncQueue s \<and>
    debounced (onFileRename env file A s) = debounced s \<and>
    isSyncing (onFileRename env file A s) = isSyncing s"
  using assms
  by (simp add: onFileRename_def deleteInsight_def Let_def split: sum.splits)

theorem rename_out_of_insights_witness:
  "onFileRename (example_env []) (TFile ''Archive/a.md'') ''Insights/a.md'' two_queued =
     two_queued\<lparr>apiCalls := [DeleteInsight ''Insights/a.md'']\<rparr>"
proof -
  have q: "two_queued =
     \<lparr>syncQueue = [''Insights/a.md'', ''Insights/b.md''], isSyncing = False, apiCalls = [],
      debounced = 2\<rparr>"
    by (simp add: two_queued_def sync_eval)
  have 1: "startsWith ''Insights/a.md'' ''Insights/''"
    "\<not> startsWith (path (TFile ''Archive/a.md'')) ''Insights/''"
    by (simp_all add: startsWith_def)
  from rename_out_of_insights[OF 1, of "example_env []" two_queued] show ?thesis
    by (simp add: q InsightSyncService.equality)
qed

section \<open>Properties of the plugin\<close>


text \<open>
  The sync service on its own does what claim C1 asks for: the handler for a created
  insight note, followed by one pass, sends one index request with the path and the body.
\<close>

lemma service_create_then_pass:
  "apiCalls (processSyncQueue (example_env [])
      (onFileCreate (TFile ''Insights/a.md'') new_InsightSyncService)) =
     [IndexInsight \<lparr>payload_path = ''Insights/a.md'', payload_content = ''X'',
                    payload_frontmatter = empty_frontmatter\<rparr>]"
  by (simp add: processSyncQueue_def sync_eval)

text \<open>
  Claim C1. In the plugin as \<open>onload\<close> leaves it, a \<open>create\<close> event of the vault runs
  no handler: the state is unchanged and no request is sent, for any file, so no index
  request follows the creation of a note under \<open>Insights/\<close>.
\<close>

theorem onload_ignores_create:
  "trigger env Vault ''create'' file (onload loaded new_AuroraOntologyPlugin) =
     onload loaded new_AuroraOntologyPlugin \<and>
   pluginCalls (onload loaded new_AuroraOntologyPlugin) = []"
  by (simp add: trigger_def onload_def new_AuroraOntologyPlugin_def)

text \<open>
  Claim C7. With a panel open and the note readable, a retrieval that returns no insight
  makes \<open>doQuery\<close> send the retrieval request and nothing else, so no generation
  request, and show the body with no insights and the one fallback question of type
  \<open>amplify\<close>.
\<close>

theorem empty_retrieval_fallback:
  assumes "insightPanel st = Some v" and "app_vault_read env file = Inr content"
    and "api_queryInsights env (query_of content st) = Inr []"
  shows "doQuery env file st =
     Inr (st\<lparr>pluginCalls := pluginCalls st @ [QueryInsights (query_of content st)],
             insightPanel := Some
               \<lparr>currentQuestion = Some (snd (parseFrontmatter content)), insights = [],
                questions = [\<lparr>question_type = amplify, insight_reference = None, quote = None,
                  question_text = ''No related Insights found. What new understanding are you seeking with this question?''\<rparr>],
                isLoading = False\<rparr>\<rparr>)"
  using assms
  by (simp add: doQuery_def doQuery_try_def on_panel_def query_of_def Let_def
      updateResults_def setLoading_def fallback_question_def)

theorem empty_retrieval_fallback_witness:
  "doQuery (example_plugin_env (Inr []) (Inr [])) (TFile ''Questions/q.md'') showing_results =
     Inr (showing_results
       \<lparr>pluginCalls := [QueryInsights \<lparr>question_content = ''why'', top_k = Some 5,
                                       min_similarity = Some (3 / 10)\<rparr>],
        insightPanel := Some \<lparr>currentQuestion = Some ''why'', insights = [],
                               questions = [fallback_question], isLoading = False\<rparr>\<rparr>)"
proof -
  have 1: "insightPanel showing_results =
      Some \<lparr>currentQuestion = Some ''old'', insights = [example_insight],
            questions = [fallback_question], isLoading = False\<rparr>"
    by (simp add: showing_results_def)
  have 2: "app_vault_read (example_plugin_env (Inr []) (Inr [])) (TFile ''Questions/q.md'') =
      Inr ''---\<newline>type: question\<newline>---\<newline>why''"
    by (simp add: example_plugin_env_def)
  have 3: "api_queryInsights (example_plugin_env (Inr []) (Inr []))
      (query_of ''---\<newline>type: question\<newline>---\<newline>why'' showing_results) = Inr []"
    by (simp add: example_plugin_env_def)
  have 4: "snd (parseFrontmatter ''---\<newline>type: question\<newline>---\<newline>why'') = ''why''"
    by (simp add: parseFrontmatter_def match_frontmatter_def startsWith_def)
  from empty_retrieval_fallback[OF 1 2 3] show ?thesis
    by (simp add: 4 query_of_def showing_results_def new_AuroraOntologyPlugin_def
        DEFAULT_SETTINGS_def fallback_question_def)
qed



end
